theory Spec2Isabelle
  imports Main "HOL-Library.AList" "HOL-Library.Word"
begin

section \<open>The Velbus controller (velbus/controller.py)\<close>

text \<open>
  The controller owns a subscriber list, a scan callback, the module registry (a Python
  dict from bus address to module object) and a counter of loaded modules. Every method
  is modelled as a function from the controller state to a triple: the outcome (an
  exception or a return value), the state the method leaves behind, and the calls it made
  on its collaborators (logger, parser, connection, subscribers, modules, scan callback),
  in program order. An exception does not roll the state back, so the state is part of
  the result in both cases.

  The calls on collaborators are recorded, not executed: subscribers, scan callbacks and
  modules are opaque values compared by equality, and what a collaborator does when it is
  called (raising, or calling back into the controller) is a separate call of the run.
  The one exception is the module constructor, which receives the controller and runs in
  the middle of \<open>new_message\<close>: the observers it subscribes are part of that method's
  effect.
\<close>

subsection \<open>Python values and exceptions\<close>

datatype error =
    AssertionError
  | ValueError
  | KeyError string
  | AttributeError
  | TypeError
  | Exception string

datatype pyval =
    PNone
  | PBytes "8 word list"
  | PStr string
  | PInt int

text \<open>\<open>isinstance(data, bytes)\<close>.\<close>

fun isinstance_bytes :: "pyval \<Rightarrow> bool" where
  "isinstance_bytes (PBytes b) = True"
| "isinstance_bytes v = False"

text \<open>\<open>isinstance(binary_message, str)\<close>.\<close>

fun isinstance_str :: "pyval \<Rightarrow> bool" where
  "isinstance_str (PStr s) = True"
| "isinstance_str v = False"

text \<open>
  The operator \<open>+\<close>: defined between two strings, two byte strings and two integers;
  between a string and an integer it raises TypeError.
\<close>

fun py_add :: "pyval \<Rightarrow> pyval \<Rightarrow> error + pyval" where
  "py_add (PStr a) (PStr b) = Inr (PStr (a @ b))"
| "py_add (PBytes a) (PBytes b) = Inr (PBytes (a @ b))"
| "py_add (PInt a) (PInt b) = Inr (PInt (a + b))"
| "py_add v w = Inl TypeError"

subsection \<open>Messages, collaborators and their calls\<close>

datatype message =
    BusActiveMessage
  | ReceiveReadyMessage
  | BusOffMessage
  | ReceiveBufferFullMessage
  | ModuleTypeMessage nat nat
  | ModuleTypeRequestMessage nat
  | OtherMessage "8 word list"

text \<open>
  \<open>ModuleTypeMessage address module_type\<close> carries the fields the controller reads.
  The message classes, the table of module constructors \<open>velbus.ModuleRegistry\<close> and
  the module classes live outside controller.py; they are parameters of the model:
  \<open>module_name_of\<close> is the method \<open>message.module_name()\<close>, \<open>ModuleRegistry\<close> maps
  a type name to its constructor (applied to type code, name and address),
  \<open>get_module_name\<close> is the method of a module object, and \<open>parser_parse\<close> is the
  one-shot decoder \<open>self.parser.parse\<close>, which returns a message or None (the
  interface the specification gives it: \<open>parseOnce(bytes-or-text) -> Message | none\<close>).

  The constructor call \<open>velbus.ModuleRegistry[name](m_type, name, address, self)\<close> hands
  the controller itself to the constructor, which runs before the dispatch loop. A
  constructor can therefore subscribe observers on the controller before the message is
  dispatched: \<open>constructor_subscribes\<close> gives the observers that the constructor called
  with these arguments subscribes, in the order of its \<open>subscribe\<close> calls. Any other
  use a constructor makes of the controller, and a constructor that raises, are outside
  the model.
\<close>

record ('s, 'm) externals =
  module_name_of :: "message \<Rightarrow> string"
  ModuleRegistry :: "string \<rightharpoonup> (nat \<Rightarrow> string \<Rightarrow> nat \<Rightarrow> 'm)"
  constructor_subscribes :: "nat \<Rightarrow> string \<Rightarrow> nat \<Rightarrow> 's list"
  get_module_name :: "'m \<Rightarrow> string"
  parser_parse :: "pyval \<Rightarrow> message option"

datatype level = INFO | WARNING | ERROR

text \<open>
  The closures that \<open>scan\<close> hands to the connection and to the modules, and a callback
  supplied by a caller of \<open>send\<close>.
\<close>

datatype 'cb continuation = ScanFinished | ModuleLoaded | UserCallback 'cb

datatype ('s, 'cb, 'm) event =
    Log level pyval
  | Sleep nat
  | ParserFeed pyval
  | ParserParse pyval
  | Send message "'cb continuation option"
  | Notify 's message
  | GetName 'm "'cb continuation"
  | Construct nat string nat
  | Callback 'cb

record ('s, 'cb, 'm) controller =
  subscribers :: "'s list"
  scan_callback :: "'cb option"
  modules :: "(nat \<times> 'm) list"
  modules_loaded :: int

type_synonym ('a, 's, 'cb, 'm) result =
  "(error + 'a) \<times> ('s, 'cb, 'm) controller \<times> ('s, 'cb, 'm) event list"

fun outcome :: "'a \<times> 'b \<times> 'c \<Rightarrow> 'a" where
  "outcome (r, c, es) = r"

fun state_of :: "'a \<times> 'b \<times> 'c \<Rightarrow> 'b" where
  "state_of (r, c, es) = c"

fun events_of :: "'a \<times> 'b \<times> 'c \<Rightarrow> 'c" where
  "events_of (r, c, es) = es"

text \<open>The subscriber calls, the bus requests and the scan-callback calls of a trace.\<close>

fun notified :: "('s, 'cb, 'm) event list \<Rightarrow> ('s \<times> message) list" where
  "notified [] = []"
| "notified (Notify s m # es) = (s, m) # notified es"
| "notified (e # es) = notified es"

fun sent :: "('s, 'cb, 'm) event list \<Rightarrow> message list" where
  "sent [] = []"
| "sent (Send m k # es) = m # sent es"
| "sent (e # es) = sent es"

fun called_back :: "('s, 'cb, 'm) event list \<Rightarrow> 'cb list" where
  "called_back [] = []"
| "called_back (Callback cb # es) = cb # called_back es"
| "called_back (e # es) = called_back es"

subsection \<open>The category table\<close>

definition MODULE_CATEGORIES :: "string \<rightharpoonup> string list" where
  "MODULE_CATEGORIES =
     map_of [(''switch'', [''VMB4RYLD'', ''VMB4RYNO'']),
             (''binary_sensor'', [''VMB6IN'', ''VMB7IN''])]"

subsection \<open>Construction, ingestion, subscription\<close>

definition Controller_init :: "('s, 'cb, 'm) controller" where
  "Controller_init =
     \<lparr>subscribers = [], scan_callback = None, modules = [], modules_loaded = 0\<rparr>"

text \<open>\<open>assert condition\<close> raises AssertionError when the condition is false.\<close>

definition py_assert :: "bool \<Rightarrow> error + unit" where
  "py_assert condition = (if condition then Inr () else Inl AssertionError)"

definition feed_parser ::
  "pyval \<Rightarrow> ('s, 'cb, 'm) controller \<Rightarrow> (unit, 's, 'cb, 'm) result" where
  "feed_parser data c =
     (case py_assert (isinstance_bytes data) of
        Inl e \<Rightarrow> (Inl e, c, [])
      | Inr u \<Rightarrow> (Inr (), c, [ParserFeed data]))"

definition subscribe ::
  "'s \<Rightarrow> ('s, 'cb, 'm) controller \<Rightarrow> (unit, 's, 'cb, 'm) result" where
  "subscribe subscriber c =
     (Inr (), c\<lparr>subscribers := subscribers c @ [subscriber]\<rparr>, [])"

text \<open>\<open>list.remove\<close> deletes the first equal element and raises ValueError when there is none.\<close>

definition unsubscribe ::
  "'s \<Rightarrow> ('s, 'cb, 'm) controller \<Rightarrow> (unit, 's, 'cb, 'm) result" where
  "unsubscribe subscriber c =
     (if subscriber \<in> set (subscribers c)
      then (Inr (), c\<lparr>subscribers := remove1 subscriber (subscribers c)\<rparr>, [])
      else (Inl ValueError, c, []))"

definition send ::
  "message \<Rightarrow> 'cb continuation option \<Rightarrow> ('s, 'cb, 'm) controller \<Rightarrow> (unit, 's, 'cb, 'm) result" where
  "send message callback c = (Inr (), c, [Send message callback])"

definition parse ::
  "('s, 'm) externals \<Rightarrow> pyval \<Rightarrow> ('s, 'cb, 'm) controller \<Rightarrow> (message option, 's, 'cb, 'm) result" where
  "parse ext binary_message c =
     (Inr (parser_parse ext binary_message), c, [ParserParse binary_message])"

definition send_binary ::
  "('s, 'm) externals \<Rightarrow> pyval \<Rightarrow> 'cb continuation option \<Rightarrow> ('s, 'cb, 'm) controller \<Rightarrow>
     (unit, 's, 'cb, 'm) result" where
  "send_binary ext binary_message callback c =
     (case py_assert (isinstance_str binary_message) of
        Inl e \<Rightarrow> (Inl e, c, [])
      | Inr u \<Rightarrow>
          (case parser_parse ext binary_message of
             Some message \<Rightarrow> (Inr (), c, [ParserParse binary_message, Send message callback])
           | None \<Rightarrow> (Inr (), c, [ParserParse binary_message])))"

subsection \<open>Registry queries\<close>

text \<open>
  \<open>get_modules\<close> iterates over \<open>self._modules.items()\<close>, whose elements are
  (address, module) tuples. The loop variable is therefore a tuple, and calling
  \<open>get_module_name\<close> on it raises AttributeError; the method exists on module objects only.
  The left operand of \<open>in\<close> is evaluated before \<open>MODULE_CATEGORIES[category]\<close>.
\<close>

datatype 'm pyobject = Tuple nat 'm | ModuleObject 'm

fun call_get_module_name :: "('s, 'm) externals \<Rightarrow> 'm pyobject \<Rightarrow> error + string" where
  "call_get_module_name ext (ModuleObject m) = Inr (get_module_name ext m)"
| "call_get_module_name ext (Tuple a m) = Inl AttributeError"

fun dict_items :: "(nat \<times> 'm) list \<Rightarrow> 'm pyobject list" where
  "dict_items [] = []"
| "dict_items ((a, m) # kvs) = Tuple a m # dict_items kvs"

fun dict_values :: "(nat \<times> 'm) list \<Rightarrow> 'm list" where
  "dict_values [] = []"
| "dict_values ((a, m) # kvs) = m # dict_values kvs"

fun get_modules_loop ::
  "('s, 'm) externals \<Rightarrow> string \<Rightarrow> 'm pyobject list \<Rightarrow> 'm pyobject list \<Rightarrow> error + 'm pyobject list" where
  "get_modules_loop ext category [] result = Inr result"
| "get_modules_loop ext category (module # rest) result =
     (case call_get_module_name ext module of
        Inl e \<Rightarrow> Inl e
      | Inr name \<Rightarrow>
          (case MODULE_CATEGORIES category of
             None \<Rightarrow> Inl (KeyError category)
           | Some names \<Rightarrow>
               get_modules_loop ext category rest
                 (if name \<in> set names then result @ [module] else result)))"

definition get_modules ::
  "('s, 'm) externals \<Rightarrow> string \<Rightarrow> ('s, 'cb, 'm) controller \<Rightarrow> ('m pyobject list, 's, 'cb, 'm) result" where
  "get_modules ext category c =
     (get_modules_loop ext category (dict_items (modules c)) [], c, [])"

subsection \<open>The scan and its two closures\<close>

text \<open>
  \<open>if self.__scan_callback\<close> tests truthiness: None is false, a function is true.
\<close>

definition scan_request :: "nat \<Rightarrow> ('s, 'cb, 'm) event" where
  "scan_request address =
     Send (ModuleTypeRequestMessage address)
          (if address = 255 then Some ScanFinished else None)"

definition scan ::
  "'cb option \<Rightarrow> ('s, 'cb, 'm) controller \<Rightarrow> (unit, 's, 'cb, 'm) result" where
  "scan callback c =
     (if scan_callback c \<noteq> None
      then (Inl (Exception ''Scan already in progress, wait till finished''), c, [])
      else (Inr (), c\<lparr>scan_callback := callback\<rparr>, map scan_request [0..<256]))"

text \<open>
  The text logged by \<open>module_loaded\<close>:
  \<open>"Module loaded (" + self._modules_loaded + ' out of ' + nb_modules\<close>, evaluated from
  the left.
\<close>

definition loaded_text :: "pyval \<Rightarrow> pyval \<Rightarrow> error + pyval" where
  "loaded_text loaded nb_modules =
     (case py_add (PStr ''Module loaded ('') loaded of
        Inl e \<Rightarrow> Inl e
      | Inr s1 \<Rightarrow>
          (case py_add s1 (PStr '' out of '') of
             Inl e \<Rightarrow> Inl e
           | Inr s2 \<Rightarrow> py_add s2 nb_modules))"

definition module_loaded ::
  "('s, 'cb, 'm) controller \<Rightarrow> (unit, 's, 'cb, 'm) result" where
  "module_loaded c =
     (let c1 = c\<lparr>modules_loaded := modules_loaded c + 1\<rparr>;
          nb_modules = int (length (dict_items (modules c1)))
      in case loaded_text (PInt (modules_loaded c1)) (PInt nb_modules) of
           Inl e \<Rightarrow> (Inl e, c1, [])
         | Inr text \<Rightarrow>
             if modules_loaded c1 \<ge> nb_modules
             then (case scan_callback c1 of
                     None \<Rightarrow> (Inl TypeError, c1, [Log INFO text])
                   | Some cb \<Rightarrow> (Inr (), c1, [Log INFO text, Callback cb]))
             else (Inr (), c1, [Log INFO text]))"

fun get_name_requests :: "'m list \<Rightarrow> ('s, 'cb, 'm) event list" where
  "get_name_requests [] = []"
| "get_name_requests (m # ms) = GetName m ModuleLoaded # get_name_requests ms"

definition scan_finished ::
  "('s, 'cb, 'm) controller \<Rightarrow> (unit, 's, 'cb, 'm) result" where
  "scan_finished c =
     (Inr (), c,
      Sleep 3 # Log INFO (PStr ''Scan finished'') # get_name_requests (dict_values (modules c)))"

subsection \<open>Message classification and dispatch\<close>

fun status_log :: "message \<Rightarrow> ('s, 'cb, 'm) event list" where
  "status_log BusActiveMessage = [Log INFO (PStr ''Velbus active message received'')]"
| "status_log ReceiveReadyMessage = [Log INFO (PStr ''Velbus receive ready message received'')]"
| "status_log BusOffMessage = [Log ERROR (PStr ''Velbus bus off message received'')]"
| "status_log ReceiveBufferFullMessage =
     [Log ERROR (PStr ''Velbus receive buffer full message received'')]"
| "status_log m = []"

text \<open>The loop \<open>for subscriber in self.__subscribers: subscriber(message)\<close>.\<close>

fun dispatch :: "'s list \<Rightarrow> message \<Rightarrow> ('s, 'cb, 'm) event list" where
  "dispatch [] message = []"
| "dispatch (subscriber # rest) message = Notify subscriber message # dispatch rest message"

text \<open>
  The variable parts of the log texts that come from \<open>str\<close> of a message or of a type
  code are left out of the logged value. Storing into the dict keeps the position of a
  key that is already present and appends a new key, as \<open>AList.update\<close> does.
\<close>

definition new_message ::
  "('s, 'm) externals \<Rightarrow> message \<Rightarrow> ('s, 'cb, 'm) controller \<Rightarrow> (unit, 's, 'cb, 'm) result" where
  "new_message ext message c =
     (let pre = Log INFO (PStr ''New message: '') # status_log message
      in case message of
           ModuleTypeMessage address m_type \<Rightarrow>
             (let pre2 = pre @ [Log INFO (PStr ''Module type response received'')];
                  name = module_name_of ext message
              in if name = ''Unknown''
                 then (Inr (), c, pre2 @ [Log WARNING (PStr ''Unknown module (code: '')])
                 else (case ModuleRegistry ext name of
                         Some constructor \<Rightarrow>
                           (let module = constructor m_type name address;
                                c1 = c\<lparr>subscribers :=
                                  subscribers c @ constructor_subscribes ext m_type name address\<rparr>;
                                c2 = c1\<lparr>modules := AList.update address module (modules c1)\<rparr>
                            in (Inr (), c2,
                                pre2 @ [Construct m_type name address]
                                     @ dispatch (subscribers c2) message))
                       | None \<Rightarrow>
                           (Inr (), c,
                            pre2 @ [Log WARNING (PStr (''Module '' @ name @ '' is not yet supported.''))]
                                 @ dispatch (subscribers c) message)))
         | _ \<Rightarrow> (Inr (), c, pre @ dispatch (subscribers c) message))"

subsection \<open>Repeated subscription and the discarded messages\<close>

fun subscribe_times :: "nat \<Rightarrow> 's \<Rightarrow> ('s, 'cb, 'm) controller \<Rightarrow> ('s, 'cb, 'm) controller" where
  "subscribe_times 0 subscriber c = c"
| "subscribe_times (Suc k) subscriber c = subscribe_times k subscriber (state_of (subscribe subscriber c))"

text \<open>
  The messages on which \<open>new_message\<close> returns before its dispatch loop: the
  module-type responses whose name is \<open>"Unknown"\<close>.
\<close>

fun isinstance_ModuleTypeMessage :: "message \<Rightarrow> bool" where
  "isinstance_ModuleTypeMessage (ModuleTypeMessage address m_type) = True"
| "isinstance_ModuleTypeMessage m = False"

definition unknown_module :: "('s, 'm) externals \<Rightarrow> message \<Rightarrow> bool" where
  "unknown_module ext message =
     (isinstance_ModuleTypeMessage message \<and> module_name_of ext message = ''Unknown'')"

text \<open>
  The observers subscribed while a message is classified: those of the constructor, when
  the message is a module-type response of a type that has one.
\<close>

fun constructed_observers :: "('s, 'm) externals \<Rightarrow> message \<Rightarrow> 's list" where
  "constructed_observers ext (ModuleTypeMessage address m_type) =
     (if module_name_of ext (ModuleTypeMessage address m_type) = ''Unknown'' then []
      else (case ModuleRegistry ext (module_name_of ext (ModuleTypeMessage address m_type)) of
              Some constructor \<Rightarrow>
                constructor_subscribes ext m_type
                  (module_name_of ext (ModuleTypeMessage address m_type)) address
            | None \<Rightarrow> []))"
| "constructed_observers ext m = []"

subsection \<open>A sample bus\<close>

text \<open>
  An instance of the external tables for evaluating the controller on concrete inputs:
  a module object records the arguments of its constructor; type code 16 is the relay
  module VMB4RYLD and code 5 the input module VMB6IN, both with a constructor, code 1 is
  the push-button module VMB8PB, which has a name but no constructor, and every other
  code has the name \<open>"Unknown"\<close>. The constructors subscribe nothing. The one-shot
  decoder knows a single text.
\<close>

datatype module = Module nat string nat

fun sample_get_module_name :: "module \<Rightarrow> string" where
  "sample_get_module_name (Module m_type name address) = name"

fun sample_module_name :: "message \<Rightarrow> string" where
  "sample_module_name (ModuleTypeMessage address m_type) =
     (if m_type = 16 then ''VMB4RYLD''
      else if m_type = 5 then ''VMB6IN''
      else if m_type = 1 then ''VMB8PB''
      else ''Unknown'')"
| "sample_module_name m = ''Unknown''"

fun sample_parser_parse :: "pyval \<Rightarrow> message option" where
  "sample_parser_parse (PStr s) = (if s = ''bus off'' then Some BusOffMessage else None)"
| "sample_parser_parse v = None"

fun no_observers :: "nat \<Rightarrow> string \<Rightarrow> nat \<Rightarrow> nat list" where
  "no_observers m_type name address = []"


definition sample_externals :: "(nat, module) externals" where
  "sample_externals =
     \<lparr>module_name_of = sample_module_name,
      ModuleRegistry = map_of [(''VMB4RYLD'', Module), (''VMB6IN'', Module)],
      constructor_subscribes = no_observers,
      get_module_name = sample_get_module_name,
      parser_parse = sample_parser_parse\<rparr>"


text \<open>
  A controller on which \<open>scan\<close> was called with callback 7, before any response, and
  the same controller after the module at address 1 answered with type code 16.
\<close>

definition scanning_empty :: "(nat, nat, module) controller" where
  "scanning_empty = state_of (scan (Some 7) Controller_init)"

definition scanning_one :: "(nat, nat, module) controller" where
  "scanning_one = state_of (new_message sample_externals (ModuleTypeMessage 1 16) scanning_empty)"

subsection \<open>Runs of the controller\<close>

text \<open>
  The calls that reach a controller: its public methods, and the two closures of
  \<open>scan\<close> when the connection or a module invokes them. A run applies a list of calls
  in order and collects the calls made on the collaborators.
\<close>

datatype ('s, 'cb) call =
    CallScan "'cb option"
  | CallScanFinished
  | CallModuleLoaded
  | CallNewMessage message
  | CallSubscribe 's
  | CallUnsubscribe 's
  | CallFeedParser pyval
  | CallGetModules string
  | CallSend message "'cb continuation option"
  | CallParse pyval
  | CallSendBinary pyval "'cb continuation option"

fun step ::
  "('s, 'm) externals \<Rightarrow> ('s, 'cb) call \<Rightarrow> ('s, 'cb, 'm) controller \<Rightarrow>
     ('s, 'cb, 'm) controller \<times> ('s, 'cb, 'm) event list" where
  "step ext (CallScan callback) c = (state_of (scan callback c), events_of (scan callback c))"
| "step ext CallScanFinished c = (state_of (scan_finished c), events_of (scan_finished c))"
| "step ext CallModuleLoaded c = (state_of (module_loaded c), events_of (module_loaded c))"
| "step ext (CallNewMessage message) c =
     (state_of (new_message ext message c), events_of (new_message ext message c))"
| "step ext (CallSubscribe s) c = (state_of (subscribe s c), events_of (subscribe s c))"
| "step ext (CallUnsubscribe s) c = (state_of (unsubscribe s c), events_of (unsubscribe s c))"
| "step ext (CallFeedParser data) c = (state_of (feed_parser data c), events_of (feed_parser data c))"
| "step ext (CallGetModules category) c =
     (state_of (get_modules ext category c), events_of (get_modules ext category c))"
| "step ext (CallSend message callback) c =
     (state_of (send message callback c), events_of (send message callback c))"
| "step ext (CallParse binary_message) c =
     (state_of (parse ext binary_message c), events_of (parse ext binary_message c))"
| "step ext (CallSendBinary binary_message callback) c =
     (state_of (send_binary ext binary_message callback c),
      events_of (send_binary ext binary_message callback c))"

fun run ::
  "('s, 'm) externals \<Rightarrow> ('s, 'cb) call list \<Rightarrow> ('s, 'cb, 'm) controller \<Rightarrow>
     ('s, 'cb, 'm) controller \<times> ('s, 'cb, 'm) event list" where
  "run ext [] c = (c, [])"
| "run ext (x # xs) c =
     (case step ext x c of
        (c1, es) \<Rightarrow> (case run ext xs c1 of (c2, fs) \<Rightarrow> (c2, es @ fs)))"

section \<open>Properties of the traces and of runs\<close>

text \<open>
  The projections of a trace distribute over concatenation; the dispatch loop calls the
  subscribers in list order; \<open>module_loaded\<close> raises in every state; no call clears a
  stored scan callback, and no run calls it.
\<close>

lemma notified_append: "notified (es @ fs) = notified es @ notified fs"
  by (induction es rule: notified.induct) simp_all

lemma notified_dispatch:
  "notified (dispatch subs message :: ('s, 'cb, 'm) event list) = map (\<lambda>s. (s, message)) subs"
  by (induction subs) simp_all

lemma notified_status_log: "notified (status_log message) = []"
  by (cases message) simp_all

lemma sent_scan_requests:
  "sent (map scan_request addresses :: ('s, 'cb, 'm) event list) = map ModuleTypeRequestMessage addresses"
  by (induction addresses) (simp_all add: scan_request_def)

lemma scan_idle_sends_all_addresses:
  assumes "scan_callback c = None"
  shows "outcome (scan callback c) = Inr ()"
    and "sent (events_of (scan callback c)) = map ModuleTypeRequestMessage [0..<256]"
    and "scan_callback (state_of (scan callback c)) = callback"
  using assms by (simp_all add: scan_def sent_scan_requests)

lemma loaded_text_raises: "loaded_text (PInt n) v = Inl TypeError"
  by (simp add: loaded_text_def)

lemma module_loaded_raises:
  "module_loaded c = (Inl TypeError, c\<lparr>modules_loaded := modules_loaded c + 1\<rparr>, [])"
  by (simp add: module_loaded_def loaded_text_raises)

lemma new_message_keeps_session:
  "scan_callback (state_of (new_message ext message c)) = scan_callback c"
  by (cases message) (simp_all add: new_message_def Let_def split: option.splits)


lemma new_message_notified:
  "notified (events_of (new_message ext message c)) =
     (if unknown_module ext message then []
      else map (\<lambda>s. (s, message)) (subscribers c @ constructed_observers ext message))"
  by (cases message)
     (simp_all add: new_message_def unknown_module_def Let_def notified_append
        notified_dispatch notified_status_log split: option.splits)



lemma scan_without_callback_leaves_no_session:
  assumes "scan_callback c = None"
  shows "scan_callback (state_of (scan None c)) = None"
    and "outcome (scan callback (state_of (scan None c))) = Inr ()"
  using assms by (simp_all add: scan_def)

lemma scan_rejected_when_callback_stored:
  assumes "scan_callback c = Some cb"
  shows "scan callback c =
           (Inl (Exception ''Scan already in progress, wait till finished''), c, [])"
  using assms by (simp add: scan_def)

lemma subscribers_subscribe_times:
  "subscribers (subscribe_times k s c) = subscribers c @ replicate k s"
proof (induction k arbitrary: c)
  case 0
  show ?case by simp
next
  case (Suc k)
  show ?case by (simp add: Suc.IH subscribe_def replicate_app_Cons_same)
qed

lemma count_list_replicate: "count_list (replicate k s) s = k"
  by (induction k) simp_all

lemma count_list_tagged: "count_list (map (\<lambda>s. (s, m)) subs) (s, m) = count_list subs s"
  by (induction subs) simp_all

lemma get_modules_nonempty_raises:
  "modules c \<noteq> [] \<Longrightarrow> outcome (get_modules ext category c) = Inl AttributeError"
  by (cases "modules c") (auto simp add: get_modules_def)

lemma get_modules_loop_items:
  "get_modules_loop ext category (dict_items kvs) result =
     (if kvs = [] then Inr result else Inl AttributeError)"
  by (cases kvs) auto

lemma called_back_append: "called_back (es @ fs) = called_back es @ called_back fs"
  by (induction es rule: called_back.induct) simp_all

lemma called_back_dispatch: "called_back (dispatch subs message) = []"
  by (induction subs) simp_all

lemma called_back_status_log: "called_back (status_log message) = []"
  by (cases message) simp_all

lemma called_back_scan_requests: "called_back (map scan_request addresses) = []"
  by (induction addresses) (simp_all add: scan_request_def)

lemma called_back_get_name_requests: "called_back (get_name_requests ms) = []"
  by (induction ms) simp_all

lemma called_back_new_message: "called_back (events_of (new_message ext message c)) = []"
  by (cases message)
     (simp_all add: new_message_def Let_def called_back_append called_back_dispatch
        called_back_status_log split: option.splits)

lemma step_never_calls_back: "called_back (snd (step ext x c)) = []"
  by (cases x)
     (simp_all add: scan_def called_back_scan_requests scan_finished_def
        called_back_get_name_requests module_loaded_raises called_back_new_message
        subscribe_def unsubscribe_def feed_parser_def get_modules_def send_def
        parse_def send_binary_def split: sum.splits option.splits)

lemma fst_run_Cons: "fst (run ext (x # xs) c) = fst (run ext xs (fst (step ext x c)))"
  by (simp split: prod.splits)

lemma snd_run_Cons:
  "snd (run ext (x # xs) c) = snd (step ext x c) @ snd (run ext xs (fst (step ext x c)))"
  by (simp split: prod.splits)

lemma run_never_calls_back: "called_back (snd (run ext xs c)) = []"
proof (induction xs arbitrary: c)
  case Nil
  show ?case by simp
next
  case (Cons x xs)
  show ?case
    unfolding snd_run_Cons called_back_append
    by (simp add: step_never_calls_back Cons.IH)
qed

lemma step_keeps_session:
  "scan_callback c = Some cb \<Longrightarrow> scan_callback (fst (step ext x c)) = Some cb"
  by (cases x)
     (simp_all add: scan_def scan_finished_def module_loaded_raises new_message_keeps_session
        subscribe_def unsubscribe_def feed_parser_def get_modules_def send_def
        parse_def send_binary_def split: sum.splits option.splits)

lemma run_keeps_session:
  "scan_callback c = Some cb \<Longrightarrow> scan_callback (fst (run ext xs c)) = Some cb"
proof (induction xs arbitrary: c)
  case Nil
  then show ?case by simp
next
  case (Cons x xs)
  from Cons.prems have "scan_callback (fst (step ext x c)) = Some cb"
    by (rule step_keeps_session)
  then have "scan_callback (fst (run ext xs (fst (step ext x c)))) = Some cb"
    by (rule Cons.IH)
  then show ?case unfolding fst_run_Cons .
qed

lemma scanning_empty_eq:
  "scanning_empty = \<lparr>subscribers = [], scan_callback = Some 7, modules = [], modules_loaded = 0\<rparr>"
  by (simp add: scanning_empty_def scan_def Controller_init_def)

lemma scanning_one_eq:
  "scanning_one =
     \<lparr>subscribers = [], scan_callback = Some 7, modules = [(1, Module 16 ''VMB4RYLD'' 1)],
      modules_loaded = 0\<rparr>"
  by (simp add: scanning_one_def scanning_empty_eq new_message_def Let_def sample_externals_def)

section \<open>Scan completion\<close>

text \<open>
  Claim C1: for every scan session the scan-completion callback is invoked exactly once;
  it fires when the loaded-count reaches the number of modules in the registry, and
  immediately when the registry is empty at the start of name resolution.

  The code does not reach the call of the callback. With an empty registry,
  \<open>scan_finished\<close> only sleeps and logs, so nothing ever calls \<open>module_loaded\<close>. With
  a registered module, \<open>module_loaded\<close> raises TypeError while building its log text,
  after the increment and before the comparison. No run of the four calls of a scan
  session contains a call of the callback.
\<close>

theorem scan_callback_never_fires:
  "events_of (scan_finished scanning_empty) = [Sleep 3, Log INFO (PStr ''Scan finished'')]
   \<and> events_of (scan_finished scanning_one) =
       [Sleep 3, Log INFO (PStr ''Scan finished''), GetName (Module 16 ''VMB4RYLD'' 1) ModuleLoaded]
   \<and> module_loaded scanning_one = (Inl TypeError, scanning_one\<lparr>modules_loaded := 1\<rparr>, [])
   \<and> called_back (snd (run sample_externals
         [CallScan (Some 7), CallNewMessage (ModuleTypeMessage 1 16), CallScanFinished,
          CallModuleLoaded]
         (Controller_init :: (nat, nat, module) controller))) = []"
proof -
  have resolving:
    "events_of (scan_finished scanning_empty) = [Sleep 3, Log INFO (PStr ''Scan finished'')]"
    "events_of (scan_finished scanning_one) =
       [Sleep 3, Log INFO (PStr ''Scan finished''), GetName (Module 16 ''VMB4RYLD'' 1) ModuleLoaded]"
    by (simp_all add: scan_finished_def scanning_empty_eq scanning_one_eq)
  have loaded: "module_loaded scanning_one = (Inl TypeError, scanning_one\<lparr>modules_loaded := 1\<rparr>, [])"
    by (simp add: module_loaded_raises scanning_one_eq)
  have session: "called_back (snd (run sample_externals
         [CallScan (Some 7), CallNewMessage (ModuleTypeMessage 1 16), CallScanFinished,
          CallModuleLoaded]
         (Controller_init :: (nat, nat, module) controller))) = []"
    by (rule run_never_calls_back)
  from resolving loaded session show ?thesis by blast
qed

text \<open>
  Claim C2: calling \<open>scan\<close> while a scan session is active, whatever the callback
  argument (None included), fails with the "already in progress" error, sends no bus
  request and leaves the controller unchanged.

  The guard of \<open>scan\<close> tests the stored callback, not whether a scan is under way. A
  \<open>scan\<close> called without callback (the default, None) sends its 256 requests and
  stores None; while that scan is in progress the guard is false, and a second
  \<open>scan\<close> returns normally, sends 256 further requests and stores its own callback.
  (When the first call passed a callback, the second is rejected:
  \<open>scan_rejected_when_callback_stored\<close>.)
\<close>

theorem second_scan_accepted_after_scan_without_callback:
  "sent (events_of (scan None (Controller_init :: (nat, nat, module) controller))) =
     map ModuleTypeRequestMessage [0..<256]
   \<and> scan_callback (state_of (scan None (Controller_init :: (nat, nat, module) controller))) = None
   \<and> scan (Some 8) (state_of (scan None (Controller_init :: (nat, nat, module) controller))) =
       (Inr (), Controller_init\<lparr>scan_callback := Some 8\<rparr>, map scan_request [0..<256])
   \<and> length (sent (events_of
         (scan (Some 8) (state_of (scan None (Controller_init :: (nat, nat, module) controller)))))) =
       256
   \<and> outcome (scan None (state_of (scan None (Controller_init :: (nat, nat, module) controller)))) =
       Inr ()"
  by (simp add: scan_def Controller_init_def sent_scan_requests)

text \<open>
  Claim C5: a scan session is created by \<open>scan\<close> with its loaded-count at zero, and is
  reset to None as soon as every registered module has loaded its name, so that a later
  \<open>scan\<close> succeeds after natural completion.

  The code never assigns None to the scan callback after \<open>scan\<close> stored one, and
  resets the counter nowhere. After the name resolution of an empty registry, and after
  the only registered module reported its name, the callback is still stored, the counter
  stays at its incremented value, and the next \<open>scan\<close> raises.
\<close>

theorem scan_session_never_cleared:
  "scan_callback (state_of (scan_finished scanning_empty)) = Some 7
   \<and> outcome (scan (Some 8) (state_of (scan_finished scanning_empty))) =
       Inl (Exception ''Scan already in progress, wait till finished'')
   \<and> state_of (module_loaded (state_of (scan_finished scanning_one))) =
       scanning_one\<lparr>modules_loaded := 1\<rparr>
   \<and> outcome (scan (Some 8) (state_of (module_loaded (state_of (scan_finished scanning_one))))) =
       Inl (Exception ''Scan already in progress, wait till finished'')"
  by (simp add: scan_finished_def module_loaded_raises scan_def scanning_empty_eq scanning_one_eq)

section \<open>Delivery to subscribers\<close>




text \<open>
  Claim C10: \<open>subscribe\<close> never de-duplicates: subscribing the same observer k times
  appends k entries to the subscriber list, and every message dispatched afterwards (one
  that reaches the dispatch loop) is delivered to that observer once per entry: k times
  more than before, hence exactly k times for an observer that was not subscribed (and
  that the module constructor run for the message does not subscribe once more).
\<close>

theorem subscribe_never_deduplicates:
  "subscribers (subscribe_times k s c) = subscribers c @ replicate k s
   \<and> (\<not> unknown_module ext message \<longrightarrow>
        count_list (notified (events_of (new_message ext message (subscribe_times k s c))))
          (s, message) =
        count_list (subscribers c) s + k + count_list (constructed_observers ext message) s)"
  by (simp add: subscribers_subscribe_times new_message_notified count_list_tagged
      count_list_replicate)

theorem subscribe_never_deduplicates_witness:
  "\<not> unknown_module sample_externals BusActiveMessage
   \<and> subscribers (subscribe_times 3 4 (Controller_init :: (nat, nat, module) controller)) = [4, 4, 4]
   \<and> count_list (notified (events_of (new_message sample_externals BusActiveMessage
         (subscribe_times 3 4 (Controller_init :: (nat, nat, module) controller)))))
         (4, BusActiveMessage) = 3"
proof -
  have known: "\<not> unknown_module sample_externals BusActiveMessage"
    by (simp add: unknown_module_def)
  show ?thesis
    using known
      subscribe_never_deduplicates [of 3 4 "Controller_init :: (nat, nat, module) controller"
        sample_externals BusActiveMessage]
    by (simp add: Controller_init_def numeral_3_eq_3)
qed

text \<open>
  Claim C8: unsubscribing an observer that is not subscribed is a no-op that raises no
  error.

  \<open>list.remove\<close> raises ValueError when the element is absent, and \<open>unsubscribe\<close>
  does not catch it.
\<close>

theorem unsubscribe_absent_raises_example:
  "outcome (unsubscribe 1 (Controller_init :: (nat, nat, module) controller)) = Inl ValueError"
  by (simp add: unsubscribe_def Controller_init_def)

text \<open>
  Claim C8, amended: unsubscribing an observer that is not subscribed raises ValueError;
  it leaves the subscriber list and the rest of the controller unchanged, hence also the
  delivery of later messages.
\<close>

theorem unsubscribe_absent_raises:
  assumes "subscriber \<notin> set (subscribers c)"
  shows "unsubscribe subscriber c = (Inl ValueError, c, [])
         \<and> new_message ext message (state_of (unsubscribe subscriber c)) = new_message ext message c"
  using assms by (simp add: unsubscribe_def)

theorem unsubscribe_absent_raises_witness:
  "2 \<notin> set (subscribers (state_of (subscribe 1 scanning_one)))
   \<and> unsubscribe 2 (state_of (subscribe 1 scanning_one)) =
       (Inl ValueError, state_of (subscribe 1 scanning_one), [])"
proof -
  have absent: "2 \<notin> set (subscribers (state_of (subscribe 1 scanning_one)))"
    by (simp add: subscribe_def scanning_one_eq)
  show ?thesis
    using absent unsubscribe_absent_raises [OF absent, of sample_externals BusOffMessage]
    by simp
qed


section \<open>The registry\<close>

text \<open>
  Claim C4: when a recognized, supported module-type response arrives for an address that
  is already in the registry, the registry keeps the original module (first-write-wins).

  \<open>new_message\<close> stores the new module under the address without looking the address
  up: address 1, registered with type code 16, answers with type code 5 and is replaced.
\<close>

theorem reannouncement_replaces_module:
  "map_of (modules scanning_one) 1 = Some (Module 16 ''VMB4RYLD'' 1)
   \<and> map_of (modules (state_of
         (new_message sample_externals (ModuleTypeMessage 1 5) scanning_one))) 1 =
       Some (Module 5 ''VMB6IN'' 1)"
  by (simp add: scanning_one_eq new_message_def Let_def sample_externals_def)

text \<open>
  Claim C4, amended: when a recognized, supported module-type response arrives for an
  address that is already in the registry, the registry maps that address to the module
  constructed from the later response (last-write-wins); the other addresses keep their
  modules and the order of the addresses is unchanged.
\<close>

theorem registry_last_write_wins:
  assumes "module_name_of ext (ModuleTypeMessage address m_type) = name"
    and "name \<noteq> ''Unknown''"
    and "ModuleRegistry ext name = Some constructor"
    and "map_of (modules c) address = Some original"
  shows "map_of (modules (state_of (new_message ext (ModuleTypeMessage address m_type) c))) =
           (map_of (modules c))(address \<mapsto> constructor m_type name address)
         \<and> map fst (modules (state_of (new_message ext (ModuleTypeMessage address m_type) c))) =
           map fst (modules c)"
proof -
  from assms(4) have "address \<in> fst ` set (modules c)"
    by (metis map_of_eq_None_iff option.distinct(1))
  with assms(1-3) show ?thesis
    by (simp add: new_message_def Let_def update_conv' update_keys)
qed

theorem registry_last_write_wins_witness:
  "module_name_of sample_externals (ModuleTypeMessage 1 5) = ''VMB6IN''
   \<and> ''VMB6IN'' \<noteq> ''Unknown''
   \<and> ModuleRegistry sample_externals ''VMB6IN'' = Some Module
   \<and> map_of (modules scanning_one) 1 = Some (Module 16 ''VMB4RYLD'' 1)
   \<and> map_of (modules (state_of
         (new_message sample_externals (ModuleTypeMessage 1 5) scanning_one))) =
       (map_of (modules scanning_one))(1 \<mapsto> Module 5 ''VMB6IN'' 1)
   \<and> map fst (modules (state_of
         (new_message sample_externals (ModuleTypeMessage 1 5) scanning_one))) = [1]"
proof -
  have name: "module_name_of sample_externals (ModuleTypeMessage 1 5) = ''VMB6IN''"
    by (simp add: sample_externals_def)
  have known: "''VMB6IN'' \<noteq> ''Unknown''"
    by simp
  have supported: "ModuleRegistry sample_externals ''VMB6IN'' = Some Module"
    by (simp add: sample_externals_def)
  have registered: "map_of (modules scanning_one) 1 = Some (Module 16 ''VMB4RYLD'' 1)"
    by (simp add: scanning_one_eq)
  have keys: "map fst (modules scanning_one) = [1]"
    by (simp add: scanning_one_eq)
  show ?thesis
    using name known supported registered keys
      registry_last_write_wins [OF name known supported registered]
    by simp
qed

text \<open>
  Claim C6: for every category of the category table, \<open>get_modules\<close> returns exactly
  the registered modules whose type name is in the category's list, in registry order,
  and does not change the registry.

  The loop runs over the (address, module) tuples of the dict, not over its modules, so
  the first registered module makes the call of \<open>get_module_name\<close> raise
  AttributeError: with the relay module VMB4RYLD registered at address 1, the category
  "switch" gives an exception, not the module.
\<close>

theorem get_modules_raises_on_registered_module:
  "MODULE_CATEGORIES ''switch'' = Some [''VMB4RYLD'', ''VMB4RYNO'']
   \<and> modules scanning_one = [(1, Module 16 ''VMB4RYLD'' 1)]
   \<and> get_modules sample_externals ''switch'' scanning_one = (Inl AttributeError, scanning_one, [])"
  by (simp add: MODULE_CATEGORIES_def scanning_one_eq get_modules_def)

text \<open>
  Claim C7: \<open>get_modules\<close> with a category that is not in the category table fails
  with an "unknown category" error, without side effects, whatever the registry holds.

  The table is consulted inside the loop only, once per registered module. On an empty
  registry the loop body never runs and the call returns the empty list.
\<close>

theorem get_modules_unknown_category_no_error:
  "MODULE_CATEGORIES ''light'' = None
   \<and> get_modules sample_externals ''light'' (Controller_init :: (nat, nat, module) controller) =
       (Inr [], Controller_init, [])"
  by (simp add: MODULE_CATEGORIES_def get_modules_def Controller_init_def)

text \<open>
  Claim C7, amended: \<open>get_modules\<close> with a category that is not in the category table
  has no side effect, whatever the registry holds: the controller is unchanged and no
  collaborator is called. When the registry is empty it raises no error and returns the
  empty list.
\<close>

theorem get_modules_unknown_category:
  assumes "MODULE_CATEGORIES category = None"
  shows "state_of (get_modules ext category c) = c
         \<and> events_of (get_modules ext category c) = []
         \<and> (modules c = [] \<longrightarrow> outcome (get_modules ext category c) = Inr [])"
  by (simp add: get_modules_def)

theorem get_modules_unknown_category_witness:
  "MODULE_CATEGORIES ''light'' = None
   \<and> modules scanning_empty = []
   \<and> state_of (get_modules sample_externals ''light'' scanning_empty) = scanning_empty
   \<and> events_of (get_modules sample_externals ''light'' scanning_empty) = []
   \<and> outcome (get_modules sample_externals ''light'' scanning_empty) = Inr []"
proof -
  have unknown: "MODULE_CATEGORIES ''light'' = None"
    by (simp add: MODULE_CATEGORIES_def)
  have empty: "modules scanning_empty = []"
    by (simp add: scanning_empty_eq)
  show ?thesis
    using unknown empty get_modules_unknown_category [OF unknown, of sample_externals scanning_empty]
    by simp
qed

section \<open>Ingestion\<close>

text \<open>
  Claim C9: \<open>feed_parser\<close> accepts bytes only: for every input that is not a bytes
  object it raises AssertionError and forwards nothing to the parser, and every bytes
  input is forwarded to the parser unchanged. (The assertion is taken as enabled.)
\<close>

theorem feed_parser_bytes_only:
  "(\<forall>b. feed_parser (PBytes b) c = (Inr (), c, [ParserFeed (PBytes b)]))
   \<and> (\<not> isinstance_bytes data \<longrightarrow> feed_parser data c = (Inl AssertionError, c, []))"
  by (simp add: feed_parser_def py_assert_def)

theorem feed_parser_bytes_only_witness:
  "\<not> isinstance_bytes (PStr ''abc'')
   \<and> feed_parser (PStr ''abc'') scanning_one = (Inl AssertionError, scanning_one, [])
   \<and> feed_parser (PBytes [15, 248]) scanning_one =
       (Inr (), scanning_one, [ParserFeed (PBytes [15, 248])])"
proof -
  have other: "\<not> isinstance_bytes (PStr ''abc'')"
    by simp
  show ?thesis
    using other feed_parser_bytes_only [of scanning_one "PStr ''abc''"]
    by simp
qed

end
